theory Spec2Isabelle
  imports Complex_Main "HOL-Library.Sublist"
begin

section \<open>Values of the program\<close>

text \<open>
  The samples handed to \<^verbatim>\<open>compare_groups\<close> are arrays of IEEE doubles. A double is
  modelled by its value: a finite real, one of the two infinities, or not-a-number.
  Every double is a dyadic rational, so the reals are a superset of the finite doubles.
\<close>

datatype pyfloat = Finite real | PosInf | NegInf | NaN

text \<open>\<^verbatim>\<open>np.isnan\<close>.\<close>

definition isnan :: "pyfloat \<Rightarrow> bool" where
  "isnan x = (x = NaN)"

text \<open>
  The comparisons of doubles: every comparison with not-a-number is false.
  The double nearest to 0.05 is slightly above 1/20 and no double lies between the
  two, so on doubles a comparison with the literal \<^verbatim>\<open>0.05\<close> agrees with the comparison
  with the real number 1/20.
\<close>

fun float_lt :: "pyfloat \<Rightarrow> pyfloat \<Rightarrow> bool" where
  "float_lt NaN y = False"
| "float_lt x NaN = False"
| "float_lt (Finite x) (Finite y) = (x < y)"
| "float_lt (Finite x) PosInf = True"
| "float_lt (Finite x) NegInf = False"
| "float_lt NegInf NegInf = False"
| "float_lt NegInf y = True"
| "float_lt PosInf y = False"

definition float_gt :: "pyfloat \<Rightarrow> pyfloat \<Rightarrow> bool" where
  "float_gt x y = float_lt y x"

definition float_ge :: "pyfloat \<Rightarrow> pyfloat \<Rightarrow> bool" where
  "float_ge x y = (\<not> isnan x \<and> \<not> isnan y \<and> \<not> float_lt x y)"

text \<open>
  Exceptions. \<^verbatim>\<open>except ValueError\<close> catches \<^verbatim>\<open>ValueError\<close> and its subclasses, which
  the first constructor stands for; \<open>OtherException\<close> is any exception that the clause
  does not catch. \<open>ComputationError\<close> is the error class of the specification: no line
  of \<^verbatim>\<open>compare_groups\<close> raises it.
\<close>

datatype exn =
    is_ValueError: ValueError string
  | is_ComputationError: ComputationError string
  | is_OtherException: OtherException string

text \<open>
  The numerical library the function calls. \<^verbatim>\<open>stats.shapiro\<close>, \<^verbatim>\<open>stats.ttest_ind\<close> and
  \<^verbatim>\<open>stats.mannwhitneyu\<close> either raise or return a result whose \<^verbatim>\<open>pvalue\<close> is read;
  \<^verbatim>\<open>np.mean\<close> returns a double (not-a-number on an empty array). They are third-party
  code, so the model takes them as a parameter.
\<close>

record stats_lib =
  shapiro :: "pyfloat list \<Rightarrow> exn + pyfloat"
  ttest_ind :: "pyfloat list \<Rightarrow> pyfloat list \<Rightarrow> exn + pyfloat"
  mannwhitneyu :: "pyfloat list \<Rightarrow> pyfloat list \<Rightarrow> exn + pyfloat"
  mean :: "pyfloat list \<Rightarrow> pyfloat"

text \<open>The dictionary that \<^verbatim>\<open>compare_groups\<close> returns.\<close>

record comparison_result =
  p_value :: pyfloat
  significant :: bool
  message :: string

section \<open>Text: formatting and stripping\<close>

text \<open>
  \<^verbatim>\<open>f"{p_value:.4f}"\<close>: the value rounded to four decimals, ties to even, with at least
  one digit before the point; \<^verbatim>\<open>nan\<close>, \<^verbatim>\<open>inf\<close> and \<^verbatim>\<open>-inf\<close> for the special values.
\<close>

definition digit_char :: "nat \<Rightarrow> char" where
  "digit_char d = ''0123456789'' ! d"

fun nat_digits :: "nat \<Rightarrow> string" where
  "nat_digits n =
     (if n < 10 then [digit_char n] else nat_digits (n div 10) @ [digit_char (n mod 10)])"

declare nat_digits.simps [simp del]

definition round_half_even :: "real \<Rightarrow> int" where
  "round_half_even x =
     (let f = \<lfloor>x\<rfloor>; d = x - of_int f
      in if d < 1 / 2 then f else if 1 / 2 < d then f + 1
         else if even f then f else f + 1)"

definition frac_digits4 :: "nat \<Rightarrow> string" where
  "frac_digits4 k =
     [digit_char (k div 1000 mod 10), digit_char (k div 100 mod 10),
      digit_char (k div 10 mod 10), digit_char (k mod 10)]"

definition format_4f :: "pyfloat \<Rightarrow> string" where
  "format_4f x =
     (case x of
        NaN \<Rightarrow> ''nan''
      | PosInf \<Rightarrow> ''inf''
      | NegInf \<Rightarrow> ''-inf''
      | Finite r \<Rightarrow>
          (let n = nat (round_half_even (\<bar>r\<bar> * 10000))
           in (if r < 0 then ''-'' else '''') @ nat_digits (n div 10000) @ ''.''
              @ frac_digits4 (n mod 10000)))"

text \<open>\<^verbatim>\<open>str.strip()\<close>: leading and trailing whitespace removed.\<close>

definition py_isspace :: "char \<Rightarrow> bool" where
  "py_isspace c =
     (c \<in> set [CHR '' '', CHR 0x09, CHR 0x0A, CHR 0x0B, CHR 0x0C, CHR 0x0D,
                CHR 0x1C, CHR 0x1D, CHR 0x1E, CHR 0x1F])"

definition strip :: "string \<Rightarrow> string" where
  "strip s = rev (dropWhile py_isspace (rev (dropWhile py_isspace s)))"

section \<open>The group comparator\<close>

text \<open>
  \<^verbatim>\<open>a = a[~np.isnan(a)]\<close>: the entries that are not not-a-number, in order.
\<close>

definition remove_nans :: "pyfloat list \<Rightarrow> pyfloat list" where
  "remove_nans xs = filter (\<lambda>x. \<not> isnan x) xs"

text \<open>
  The \<^verbatim>\<open>try\<close> block: \<^verbatim>\<open>shapiro(a)\<close>, then \<^verbatim>\<open>shapiro(b)\<close>, then the two comparisons
  with 0.05. A \<^verbatim>\<open>ValueError\<close> from either call is caught and sets both flags to
  \<^verbatim>\<open>False\<close>; any other exception leaves the function.
\<close>

definition check_normality ::
  "stats_lib \<Rightarrow> pyfloat list \<Rightarrow> pyfloat list \<Rightarrow> exn + (bool \<times> bool)" where
  "check_normality lib a b =
     (case shapiro lib a of
        Inl e \<Rightarrow> (if is_ValueError e then Inr (False, False) else Inl e)
      | Inr shapiro_a \<Rightarrow>
          (case shapiro lib b of
             Inl e \<Rightarrow> (if is_ValueError e then Inr (False, False) else Inl e)
           | Inr shapiro_b \<Rightarrow>
               Inr (float_ge shapiro_a (Finite 0.05), float_ge shapiro_b (Finite 0.05))))"

text \<open>
  \<^verbatim>\<open>if is_normal_a and is_normal_b\<close>: the test that runs, its name and its p-value.
  An exception of the test is not caught.
\<close>

definition decide_on_test ::
  "stats_lib \<Rightarrow> pyfloat list \<Rightarrow> pyfloat list \<Rightarrow> bool \<Rightarrow> bool \<Rightarrow> exn + (string \<times> pyfloat)" where
  "decide_on_test lib a b is_normal_a is_normal_b =
     (if is_normal_a \<and> is_normal_b then
        (case ttest_ind lib a b of
           Inl e \<Rightarrow> Inl e
         | Inr p \<Rightarrow> Inr (''T-test'', p))
      else
        (case mannwhitneyu lib a b of
           Inl e \<Rightarrow> Inl e
         | Inr p \<Rightarrow> Inr (''Mann-Whitney U test'', p)))"

text \<open>
  From \<^verbatim>\<open>significant = p_value < 0.05\<close> to the returned dictionary: the means, the
  direction, the start of the message and the stripped message.
\<close>

definition summarize ::
  "stats_lib \<Rightarrow> pyfloat list \<Rightarrow> pyfloat list \<Rightarrow> string \<Rightarrow> pyfloat \<Rightarrow> comparison_result" where
  "summarize lib a b test_used p =
     (let sig = float_lt p (Finite 0.05);
          mean_a = mean lib a;
          mean_b = mean lib b;
          direction =
            (if sig then
               (if float_gt mean_a mean_b then ''Group A mean is higher.''
                else ''Group B mean is higher.'')
             else '''');
          msg_start =
            (if sig then ''Significant difference found (p = '' @ format_4f p @ '').''
             else ''No significant difference found (p = '' @ format_4f p @ '').'')
      in \<lparr>p_value = p, significant = sig,
          message = strip (msg_start @ '' Used '' @ test_used @ ''. '' @ direction)\<rparr>)"

text \<open>
  The whole function. The parameter \<open>method\<close> is in the signature and is read nowhere.
\<close>

definition compare_groups ::
  "stats_lib \<Rightarrow> pyfloat list \<Rightarrow> pyfloat list \<Rightarrow> string \<Rightarrow> exn + comparison_result" where
  "compare_groups lib data_a data_b method =
     (let a = remove_nans data_a;
          b = remove_nans data_b
      in case check_normality lib a b of
           Inl e \<Rightarrow> Inl e
         | Inr (is_normal_a, is_normal_b) \<Rightarrow>
             (case decide_on_test lib a b is_normal_a is_normal_b of
                Inl e \<Rightarrow> Inl e
              | Inr (test_used, p) \<Rightarrow> Inr (summarize lib a b test_used p)))"

section \<open>Notions the properties are stated with\<close>

text \<open>
  Both samples pass the normality check: both calls of \<^verbatim>\<open>shapiro\<close> return and each
  p-value is at least 0.05.
\<close>

definition both_normal :: "stats_lib \<Rightarrow> pyfloat list \<Rightarrow> pyfloat list \<Rightarrow> bool" where
  "both_normal lib a b =
     (case shapiro lib a of
        Inl e \<Rightarrow> False
      | Inr shapiro_a \<Rightarrow>
          (case shapiro lib b of
             Inl e \<Rightarrow> False
           | Inr shapiro_b \<Rightarrow>
               float_ge shapiro_a (Finite 0.05) \<and> float_ge shapiro_b (Finite 0.05)))"

text \<open>A call of the library ends in an exception that \<^verbatim>\<open>except ValueError\<close> lets pass.\<close>

definition raises_uncaught :: "exn + pyfloat \<Rightarrow> bool" where
  "raises_uncaught res = (case res of Inl e \<Rightarrow> \<not> is_ValueError e | Inr p \<Rightarrow> False)"

text \<open>
  The diagnostic cannot run: the \<^verbatim>\<open>try\<close> block ends in a \<^verbatim>\<open>ValueError\<close>, raised by
  the first call, or by the second one after the first has returned.
\<close>

definition diagnostic_raises_ValueError ::
  "stats_lib \<Rightarrow> pyfloat list \<Rightarrow> pyfloat list \<Rightarrow> bool" where
  "diagnostic_raises_ValueError lib a b =
     (case shapiro lib a of
        Inl e \<Rightarrow> is_ValueError e
      | Inr shapiro_a \<Rightarrow>
          (case shapiro lib b of Inl e \<Rightarrow> is_ValueError e | Inr shapiro_b \<Rightarrow> False))"

text \<open>
  What the library documents for \<^verbatim>\<open>shapiro\<close>: a sample of fewer than three observations
  is rejected with a \<^verbatim>\<open>ValueError\<close> (``Data must be at least length 3.'').
\<close>

definition shapiro_rejects_small :: "stats_lib \<Rightarrow> bool" where
  "shapiro_rejects_small lib =
     (\<forall>xs. length xs < 3 \<longrightarrow> (\<exists>msg. shapiro lib xs = Inl (ValueError msg)))"

text \<open>\<open>nans_inserted xs ys\<close>: \<open>ys\<close> is \<open>xs\<close> with not-a-number entries put in at any places.\<close>

inductive nans_inserted :: "pyfloat list \<Rightarrow> pyfloat list \<Rightarrow> bool" where
  same: "nans_inserted xs xs"
| insert_nan: "nans_inserted xs (ys @ zs) \<Longrightarrow> nans_inserted xs (ys @ NaN # zs)"

text \<open>The message names a test: it contains \<^verbatim>\<open>Used <test>.\<close>\<close>

definition names_test :: "string \<Rightarrow> comparison_result \<Rightarrow> bool" where
  "names_test test r = sublist (''Used '' @ test @ ''.'') (message r)"

text \<open>The two directional claims.\<close>

definition claims_A_higher :: "comparison_result \<Rightarrow> bool" where
  "claims_A_higher r = sublist ''Group A mean is higher.'' (message r)"

definition claims_B_higher :: "comparison_result \<Rightarrow> bool" where
  "claims_B_higher r = sublist ''Group B mean is higher.'' (message r)"

text \<open>A finite number between 0 and 1.\<close>

definition in_unit_interval :: "pyfloat \<Rightarrow> bool" where
  "in_unit_interval p = (case p of Finite r \<Rightarrow> 0 \<le> r \<and> r \<le> 1 | PosInf \<Rightarrow> False
     | NegInf \<Rightarrow> False | NaN \<Rightarrow> False)"

text \<open>
  The first sentence of the message: the outcome and the p-value to four decimals.
\<close>

definition outcome_sentence :: "comparison_result \<Rightarrow> string" where
  "outcome_sentence r =
     (if significant r then ''Significant difference found (p = ''
      else ''No significant difference found (p = '') @ format_4f (p_value r) @ '').''"

text \<open>A text ends in a point and four decimal digits.\<close>

definition is_digit :: "char \<Rightarrow> bool" where
  "is_digit c = (c \<in> set ''0123456789'')"

definition four_decimals :: "string \<Rightarrow> bool" where
  "four_decimals s =
     (case rev s of
        d4 # d3 # d2 # d1 # dot # rest \<Rightarrow>
          dot = CHR ''.'' \<and> is_digit d1 \<and> is_digit d2 \<and> is_digit d3 \<and> is_digit d4
      | _ \<Rightarrow> False)"

text \<open>
  The sentences of a text are counted by the full stops that end one: those followed by
  a space and the one the text ends in. The point inside a number is followed by a digit.
\<close>

fun sentence_count :: "string \<Rightarrow> nat" where
  "sentence_count [] = 0"
| "sentence_count [c] = (if c = CHR ''.'' then 1 else 0)"
| "sentence_count (c # d # s) =
     (if c = CHR ''.'' \<and> d = CHR '' '' then 1 else 0) + sentence_count (d # s)"

section \<open>An instance of the library\<close>

text \<open>
  To run the model on concrete samples the library has to be given. \<open>sample_lib\<close> is a
  small stand-in for it. It raises where the library is documented to raise (\<^verbatim>\<open>shapiro\<close>
  on fewer than three observations, \<^verbatim>\<open>mannwhitneyu\<close> on an empty sample), it yields
  not-a-number for the T-test of samples without any spread, as the library does, and
  for a few listed samples it has a fixed p-value, rounded; of those values only the
  side of 0.05 matters below. \<open>mean\<close> is the exact arithmetic mean, not-a-number on an
  empty sample.
\<close>

definition group_a1 :: "pyfloat list" where
  "group_a1 = map Finite [10, 11, 9, 10, 12, 11, 10, 9]"

definition group_b1 :: "pyfloat list" where
  "group_b1 = map Finite [20, 21, 19, 22, 20, 21, 19, 20]"

definition skewed_a :: "pyfloat list" where
  "skewed_a = map Finite [1, 1, 1, 2, 50, 1, 1]"

definition skewed_b :: "pyfloat list" where
  "skewed_b = map Finite [1, 2, 1, 1, 1, 1, 1]"

definition tied_a :: "pyfloat list" where
  "tied_a = map Finite [0, 0, 0, 0, 0, 0, 0, 0, 0, 10]"

definition tied_b :: "pyfloat list" where
  "tied_b = map Finite [1, 1, 1, 1, 1, 1, 1, 1, 1, 1]"

definition constant_5 :: "pyfloat list" where
  "constant_5 = map Finite [5, 5, 5, 5, 5]"

fun real_of :: "pyfloat \<Rightarrow> real" where
  "real_of (Finite r) = r"
| "real_of x = 0"

fun is_finite :: "pyfloat \<Rightarrow> bool" where
  "is_finite (Finite r) = True"
| "is_finite x = False"

definition exact_mean :: "pyfloat list \<Rightarrow> pyfloat" where
  "exact_mean xs =
     (if xs \<noteq> [] \<and> list_all is_finite xs
      then Finite (sum_list (map real_of xs) / real (length xs))
      else NaN)"

definition sample_shapiro :: "pyfloat list \<Rightarrow> exn + pyfloat" where
  "sample_shapiro xs =
     (if length xs < 3 then Inl (ValueError ''Data must be at least length 3.'')
      else if xs = skewed_a \<or> xs = skewed_b \<or> xs = tied_a then Inr (Finite 0.0001)
      else if xs = constant_5 \<or> xs = tied_b then Inr (Finite 1)
      else Inr (Finite 0.5))"

definition sample_ttest_ind :: "pyfloat list \<Rightarrow> pyfloat list \<Rightarrow> exn + pyfloat" where
  "sample_ttest_ind xs ys =
     (if xs = constant_5 \<and> ys = constant_5 then Inr NaN
      else if xs = group_a1 \<and> ys = group_b1 then Inr (Finite 0.00000000002)
      else Inr (Finite 0.5))"

definition sample_mannwhitneyu :: "pyfloat list \<Rightarrow> pyfloat list \<Rightarrow> exn + pyfloat" where
  "sample_mannwhitneyu xs ys =
     (if xs = [] \<or> ys = [] then Inl (ValueError ''x and y must be of nonzero size.'')
      else if xs = tied_a \<and> ys = tied_b then Inr (Finite 0.0008)
      else if xs = skewed_a \<and> ys = skewed_b then Inr (Finite 0.53)
      else if xs = [Finite 1, Finite 3] \<and> ys = [Finite 2, Finite 4] then Inr (Finite (2 / 3))
      else Inr (Finite 0.5))"

definition sample_lib :: stats_lib where
  "sample_lib =
     \<lparr>shapiro = sample_shapiro, ttest_ind = sample_ttest_ind,
      mannwhitneyu = sample_mannwhitneyu, mean = exact_mean\<rparr>"

text \<open>
  The same library with a \<^verbatim>\<open>shapiro\<close> that ends in an exception which is no \<^verbatim>\<open>ValueError\<close>,
  as a \<^verbatim>\<open>MemoryError\<close> is: the path on which the normality step lets an exception pass.
\<close>

definition interrupted_lib :: stats_lib where
  "interrupted_lib =
     \<lparr>shapiro = (\<lambda>xs. Inl (OtherException ''MemoryError'')), ttest_ind = sample_ttest_ind,
      mannwhitneyu = sample_mannwhitneyu, mean = exact_mean\<rparr>"

section \<open>Facts about formatting and stripping\<close>

lemma strip_unchanged:
  assumes "s \<noteq> []" "\<not> py_isspace (hd s)" "\<not> py_isspace (last s)"
  shows "strip s = s"
proof -
  from assms have 1: "dropWhile py_isspace s = s"
    by (cases s) simp_all
  from assms have "rev s \<noteq> []" "\<not> py_isspace (hd (rev s))"
    by (simp_all add: hd_rev)
  then have "dropWhile py_isspace (rev s) = rev s"
    by (cases "rev s") simp_all
  with 1 show ?thesis by (simp add: strip_def)
qed

lemma strip_trailing_space:
  assumes "\<not> py_isspace c" "\<not> py_isspace d"
  shows "strip (c # u @ [d, CHR '' '']) = c # u @ [d]"
  using assms by (simp add: strip_def py_isspace_def)

lemma not_space_simps:
  "\<not> py_isspace CHR ''S''" "\<not> py_isspace CHR ''N''" "\<not> py_isspace CHR ''.''"
  by (simp_all add: py_isspace_def)

lemma digit_char_range: "d < 10 \<Longrightarrow> digit_char d \<in> set ''0123456789''"
  unfolding digit_char_def by (rule nth_mem) simp

lemma nat_digits_chars: "set (nat_digits n) \<subseteq> set ''0123456789''"
proof (induction n rule: nat_digits.induct)
  case (1 n)
  show ?case
  proof (cases "n < 10")
    case True
    then show ?thesis using digit_char_range [of n] by (subst nat_digits.simps) simp
  next
    case False
    have "digit_char (n mod 10) \<in> set ''0123456789''" by (rule digit_char_range) simp
    with False "1.IH" show ?thesis by (subst nat_digits.simps) simp
  qed
qed

lemma nat_digits_nonempty: "nat_digits n \<noteq> []"
  by (subst nat_digits.simps) simp

lemma digit_char_mod: "digit_char (j mod 10) \<in> set ''0123456789''"
  by (rule digit_char_range) simp

lemma frac_digits4_chars: "set (frac_digits4 k) \<subseteq> set ''0123456789''"
  unfolding frac_digits4_def
  using digit_char_mod [of "k div 1000"] digit_char_mod [of "k div 100"]
    digit_char_mod [of "k div 10"] digit_char_mod [of k]
  by simp

lemma format_4f_chars: "set (format_4f x) \<subseteq> set ''0123456789'' \<union> set ''.-infa''"
proof -
  define D where "D = set ''0123456789''"
  have 1: "set (nat_digits n) \<subseteq> D" for n
    unfolding D_def by (rule nat_digits_chars)
  have 2: "set (frac_digits4 k) \<subseteq> D" for k
    unfolding D_def by (rule frac_digits4_chars)
  have "set (format_4f x) \<subseteq> D \<union> set ''.-infa''"
  proof (cases x)
    case (Finite r)
    then show ?thesis
      using 1 2 by (auto simp: format_4f_def Let_def)
  qed (simp_all add: format_4f_def)
  then show ?thesis by (simp only: D_def)
qed

lemma format_4f_avoids:
  "c \<notin> set ''0123456789'' \<Longrightarrow> c \<notin> set ''.-infa'' \<Longrightarrow> c \<notin> set (format_4f x)"
  using format_4f_chars [of x] by blast

lemma format_4f_nonempty: "format_4f x \<noteq> []"
  by (cases x) (simp_all add: format_4f_def Let_def)

section \<open>Facts about the comparator\<close>

lemma summarize_p_value: "p_value (summarize lib a b t p) = p"
  by (simp add: summarize_def Let_def)

lemma summarize_significant: "significant (summarize lib a b t p) = float_lt p (Finite 0.05)"
  by (simp add: summarize_def Let_def)

lemma message_significant:
  assumes "float_lt p (Finite 0.05)"
  shows "message (summarize lib a b t p) =
           ''Significant difference found (p = '' @ format_4f p @ ''). Used '' @ t @ ''. ''
           @ (if float_gt (mean lib a) (mean lib b) then ''Group A mean is higher.''
              else ''Group B mean is higher.'')"
proof -
  define d where "d = (if float_gt (mean lib a) (mean lib b) then ''Group A mean is higher.''
                       else ''Group B mean is higher.'')"
  have d: "d \<noteq> []" "last d = CHR ''.''"
    by (simp_all add: d_def)
  define s where "s = ''Significant difference found (p = '' @ format_4f p @ ''). Used '' @ t @ ''. '' @ d"
  have "s \<noteq> []" "hd s = CHR ''S''" "last s = CHR ''.''"
    using d by (simp_all add: s_def)
  then have "strip s = s"
    by (intro strip_unchanged) (simp_all add: py_isspace_def)
  then show ?thesis
    using assms by (simp add: summarize_def Let_def s_def d_def)
qed

lemma message_not_significant:
  assumes "\<not> float_lt p (Finite 0.05)"
  shows "message (summarize lib a b t p) =
           ''No significant difference found (p = '' @ format_4f p @ ''). Used '' @ t @ ''.''"
proof -
  define u where "u = ''o significant difference found (p = '' @ format_4f p @ ''). Used '' @ t"
  have "strip (CHR ''N'' # u @ [CHR ''.'', CHR '' '']) = CHR ''N'' # u @ [CHR ''.'']"
    by (rule strip_trailing_space) (simp_all add: py_isspace_def)
  then show ?thesis
    using assms by (simp add: summarize_def Let_def u_def)
qed

lemma compare_groups_unfold:
  "compare_groups lib data_a data_b method =
     (case check_normality lib (remove_nans data_a) (remove_nans data_b) of
        Inl e \<Rightarrow> Inl e
      | Inr (is_normal_a, is_normal_b) \<Rightarrow>
          (if is_normal_a \<and> is_normal_b then
             (case ttest_ind lib (remove_nans data_a) (remove_nans data_b) of
                Inl e \<Rightarrow> Inl e
              | Inr p \<Rightarrow>
                  Inr (summarize lib (remove_nans data_a) (remove_nans data_b) ''T-test'' p))
           else
             (case mannwhitneyu lib (remove_nans data_a) (remove_nans data_b) of
                Inl e \<Rightarrow> Inl e
              | Inr p \<Rightarrow>
                  Inr (summarize lib (remove_nans data_a) (remove_nans data_b)
                         ''Mann-Whitney U test'' p))))"
  by (simp add: compare_groups_def decide_on_test_def Let_def split: sum.splits prod.splits)

lemma check_normality_flags:
  "check_normality lib a b = Inr (is_normal_a, is_normal_b) \<Longrightarrow>
     (is_normal_a \<and> is_normal_b) = both_normal lib a b"
  by (auto simp: check_normality_def both_normal_def split: sum.splits if_splits)

lemma both_normal_check:
  "both_normal lib a b \<Longrightarrow> check_normality lib a b = Inr (True, True)"
  by (auto simp: check_normality_def both_normal_def split: sum.splits)

lemma check_normality_caught:
  "diagnostic_raises_ValueError lib a b \<Longrightarrow> check_normality lib a b = Inr (False, False)"
  by (auto simp: check_normality_def diagnostic_raises_ValueError_def split: sum.splits)

lemma compare_groups_normal:
  assumes "both_normal lib (remove_nans data_a) (remove_nans data_b)"
  shows "compare_groups lib data_a data_b method =
           (case ttest_ind lib (remove_nans data_a) (remove_nans data_b) of
              Inl e \<Rightarrow> Inl e
            | Inr p \<Rightarrow>
                Inr (summarize lib (remove_nans data_a) (remove_nans data_b) ''T-test'' p))"
  using both_normal_check [OF assms] by (simp add: compare_groups_unfold)

lemma compare_groups_not_normal:
  assumes "\<not> both_normal lib (remove_nans data_a) (remove_nans data_b)"
    and "\<not> isl (check_normality lib (remove_nans data_a) (remove_nans data_b))"
  shows "compare_groups lib data_a data_b method =
           (case mannwhitneyu lib (remove_nans data_a) (remove_nans data_b) of
              Inl e \<Rightarrow> Inl e
            | Inr p \<Rightarrow>
                Inr (summarize lib (remove_nans data_a) (remove_nans data_b)
                       ''Mann-Whitney U test'' p))"
proof -
  from assms(2) obtain na nb
    where c: "check_normality lib (remove_nans data_a) (remove_nans data_b) = Inr (na, nb)"
    by (cases "check_normality lib (remove_nans data_a) (remove_nans data_b)") auto
  with assms(1) have "\<not> (na \<and> nb)"
    using check_normality_flags [OF c] by simp
  with c show ?thesis
    by (auto simp add: compare_groups_unfold)
qed

lemma compare_groups_returns:
  assumes "compare_groups lib data_a data_b method = Inr r"
  shows "\<not> isl (check_normality lib (remove_nans data_a) (remove_nans data_b))"
  using assms by (auto simp: compare_groups_unfold split: sum.splits)

lemma compare_groups_result:
  assumes "compare_groups lib data_a data_b method = Inr r"
  shows "if both_normal lib (remove_nans data_a) (remove_nans data_b)
         then ttest_ind lib (remove_nans data_a) (remove_nans data_b) = Inr (p_value r)
              \<and> r = summarize lib (remove_nans data_a) (remove_nans data_b) ''T-test'' (p_value r)
         else mannwhitneyu lib (remove_nans data_a) (remove_nans data_b) = Inr (p_value r)
              \<and> r = summarize lib (remove_nans data_a) (remove_nans data_b)
                      ''Mann-Whitney U test'' (p_value r)"
proof (cases "both_normal lib (remove_nans data_a) (remove_nans data_b)")
  case True
  with assms show ?thesis
    by (auto simp: compare_groups_normal summarize_p_value split: sum.splits)
next
  case False
  with assms compare_groups_returns [OF assms] show ?thesis
    by (auto simp: compare_groups_not_normal summarize_p_value split: sum.splits)
qed

lemma nans_inserted_remove:
  "nans_inserted xs ys \<Longrightarrow> remove_nans ys = remove_nans xs"
  by (induction rule: nans_inserted.induct) (simp_all add: remove_nans_def isnan_def)

lemma remove_nans_idem: "remove_nans (remove_nans xs) = remove_nans xs"
  by (simp add: remove_nans_def)

lemma compare_groups_sanitized:
  assumes "remove_nans data_a = remove_nans data_c" and "remove_nans data_b = remove_nans data_d"
  shows "compare_groups lib data_a data_b method = compare_groups lib data_c data_d method"
  unfolding compare_groups_def using assms by simp

lemma summarize_fields:
  "summarize lib a b t p =
     \<lparr>p_value = p, significant = float_lt p (Finite 0.05),
      message = message (summarize lib a b t p)\<rparr>"
  by (simp add: summarize_def Let_def)

lemma summarize_significant_eq:
  assumes "float_lt p (Finite 0.05)"
  shows "summarize lib a b t p =
           \<lparr>p_value = p, significant = True,
            message = ''Significant difference found (p = '' @ format_4f p @ ''). Used '' @ t @ ''. ''
              @ (if float_gt (mean lib a) (mean lib b) then ''Group A mean is higher.''
                 else ''Group B mean is higher.'')\<rparr>"
  using summarize_fields [of lib a b t p] assms
  by (simp only: message_significant [OF assms])

lemma summarize_not_significant_eq:
  assumes "\<not> float_lt p (Finite 0.05)"
  shows "summarize lib a b t p =
           \<lparr>p_value = p, significant = False,
            message = ''No significant difference found (p = '' @ format_4f p @ ''). Used '' @ t @ ''.''\<rparr>"
  using summarize_fields [of lib a b t p] assms
  by (simp only: message_not_significant [OF assms])

section \<open>Facts about the test named in the message\<close>

lemma message_names_test:
  "names_test t (summarize lib a b t p)"
proof (cases "float_lt p (Finite 0.05)")
  case True
  have "sublist (''Used '' @ t @ ''.'')
          ((''Significant difference found (p = '' @ format_4f p @ ''). '') @ (''Used '' @ t @ ''.'')
           @ ('' '' @ (if float_gt (mean lib a) (mean lib b) then ''Group A mean is higher.''
                       else ''Group B mean is higher.'')))"
    by (rule sublist_appendI)
  then show ?thesis
    using True by (simp add: names_test_def message_significant)
next
  case False
  have "sublist (''Used '' @ t @ ''.'')
          ((''No significant difference found (p = '' @ format_4f p @ ''). '') @ (''Used '' @ t @ ''.''))"
    by (rule sublist_append_leftI)
  then show ?thesis
    using False by (simp add: names_test_def message_not_significant)
qed

lemma no_char_no_sublist: "c \<in> set xs \<Longrightarrow> c \<notin> set ys \<Longrightarrow> \<not> sublist xs ys"
  using set_mono_sublist by fastforce

lemma format_4f_no_capital:
  "CHR ''T'' \<notin> set (format_4f p)" "CHR ''M'' \<notin> set (format_4f p)"
  "CHR ''G'' \<notin> set (format_4f p)" "CHR ''A'' \<notin> set (format_4f p)"
  "CHR ''B'' \<notin> set (format_4f p)"
  by (rule format_4f_avoids; simp)+

lemma format_4f_no_line_break:
  "CHR 0x0A \<notin> set (format_4f p)" "CHR 0x0D \<notin> set (format_4f p)"
  by (rule format_4f_avoids; simp)+

lemma mann_whitney_message_has_no_T:
  "CHR ''T'' \<notin> set (message (summarize lib a b ''Mann-Whitney U test'' p))"
  by (cases "float_lt p (Finite 0.05)")
    (simp_all add: message_significant message_not_significant format_4f_no_capital)

lemma t_test_message_has_no_M:
  "CHR ''M'' \<notin> set (message (summarize lib a b ''T-test'' p))"
  by (cases "float_lt p (Finite 0.05)")
    (simp_all add: message_significant message_not_significant format_4f_no_capital)

lemma mann_whitney_not_t_test:
  "\<not> names_test ''T-test'' (summarize lib a b ''Mann-Whitney U test'' p)"
  unfolding names_test_def
  by (rule no_char_no_sublist [where c = "CHR ''T''"]) (simp_all add: mann_whitney_message_has_no_T)

lemma t_test_not_mann_whitney:
  "\<not> names_test ''Mann-Whitney U test'' (summarize lib a b ''T-test'' p)"
  unfolding names_test_def
  by (rule no_char_no_sublist [where c = "CHR ''M''"]) (simp_all add: t_test_message_has_no_M)

section \<open>Facts about the shape of the message\<close>

lemma sentence_count_skip:
  "c \<noteq> CHR ''.'' \<Longrightarrow> sentence_count (c # zs) = sentence_count zs"
  by (cases zs) simp_all

lemma sentence_count_no_stop:
  "CHR ''.'' \<notin> set xs \<Longrightarrow> sentence_count (xs @ zs) = sentence_count zs"
  by (induction xs) (auto simp add: sentence_count_skip)

lemma sentence_count_inner_point:
  assumes "CHR ''.'' \<notin> set xs" and "CHR ''.'' \<notin> set (d # ys)" and "d \<noteq> CHR '' ''"
  shows "sentence_count (xs @ CHR ''.'' # d # ys @ zs) = sentence_count zs"
proof -
  have "sentence_count (xs @ CHR ''.'' # d # ys @ zs) = sentence_count (CHR ''.'' # d # ys @ zs)"
    using assms(1) by (rule sentence_count_no_stop)
  also have "\<dots> = sentence_count ((d # ys) @ zs)"
    using assms(3) by simp
  also have "\<dots> = sentence_count zs"
    using assms(2) by (rule sentence_count_no_stop)
  finally show ?thesis .
qed

lemma digits_no_point_no_space:
  "c \<in> set ''0123456789'' \<Longrightarrow> c \<noteq> CHR ''.'' \<and> c \<noteq> CHR '' ''"
  by auto

lemma nat_digits_no_point: "CHR ''.'' \<notin> set (nat_digits n)"
  using nat_digits_chars [of n] digits_no_point_no_space by blast

lemma frac_digits4_shape:
  "\<exists>d ys. frac_digits4 k = d # ys \<and> CHR ''.'' \<notin> set (d # ys) \<and> d \<noteq> CHR '' ''"
proof -
  have "CHR ''.'' \<notin> set (frac_digits4 k)" "CHR '' '' \<notin> set (frac_digits4 k)"
    using frac_digits4_chars [of k] digits_no_point_no_space by blast+
  then show ?thesis
    by (auto simp add: frac_digits4_def)
qed

lemma format_4f_sentences: "sentence_count (format_4f p @ zs) = sentence_count zs"
proof (cases p)
  case (Finite r)
  define n where "n = nat (round_half_even (\<bar>r\<bar> * 10000))"
  define xs where "xs = (if r < 0 then ''-'' else '''') @ nat_digits (n div 10000)"
  obtain d ys where f: "frac_digits4 (n mod 10000) = d # ys"
    and d: "CHR ''.'' \<notin> set (d # ys)" "d \<noteq> CHR '' ''"
    using frac_digits4_shape by blast
  have xs: "CHR ''.'' \<notin> set xs"
    by (simp add: xs_def nat_digits_no_point)
  have "format_4f p @ zs = xs @ CHR ''.'' # d # ys @ zs"
    using Finite f by (simp add: format_4f_def Let_def n_def xs_def)
  then show ?thesis
    using sentence_count_inner_point [OF xs d] by simp
qed (simp_all add: format_4f_def sentence_count_skip)

lemma is_digit_digit_char: "is_digit (digit_char (j mod 10))"
  unfolding is_digit_def by (rule digit_char_mod)

lemma frac_digits4_digits:
  "\<exists>d1 d2 d3 d4. frac_digits4 k = [d1, d2, d3, d4]
     \<and> is_digit d1 \<and> is_digit d2 \<and> is_digit d3 \<and> is_digit d4"
  by (simp add: frac_digits4_def is_digit_digit_char)

lemma format_4f_four_decimals: "four_decimals (format_4f (Finite r))"
proof -
  define n where "n = nat (round_half_even (\<bar>r\<bar> * 10000))"
  obtain d1 d2 d3 d4 where "frac_digits4 (n mod 10000) = [d1, d2, d3, d4]"
    and "is_digit d1" "is_digit d2" "is_digit d3" "is_digit d4"
    using frac_digits4_digits by blast
  then show ?thesis
    by (simp add: four_decimals_def format_4f_def Let_def n_def)
qed

lemma message_shape:
  "message (summarize lib a b t p) =
     (if float_lt p (Finite 0.05) then ''Significant difference found (p = ''
      else ''No significant difference found (p = '') @ format_4f p @ '').''
     @ '' Used '' @ t @ ''.''
     @ (if float_lt p (Finite 0.05) then
          (if float_gt (mean lib a) (mean lib b) then '' Group A mean is higher.''
           else '' Group B mean is higher.'')
        else '''')"
  by (cases "float_lt p (Finite 0.05)") (simp_all add: message_significant message_not_significant)

lemma message_sentences:
  assumes "t = ''T-test'' \<or> t = ''Mann-Whitney U test''"
  shows "sentence_count (message (summarize lib a b t p))
           = (if float_lt p (Finite 0.05) then 3 else 2)"
  using assms
  by (auto simp add: message_significant message_not_significant sentence_count_skip
      format_4f_sentences)

lemma message_no_line_break:
  assumes "t = ''T-test'' \<or> t = ''Mann-Whitney U test''"
  shows "CHR 0x0A \<notin> set (message (summarize lib a b t p))"
    and "CHR 0x0D \<notin> set (message (summarize lib a b t p))"
  using assms
  by (auto simp add: message_shape format_4f_no_line_break)

lemma message_nonempty: "message (summarize lib a b t p) \<noteq> []"
  by (simp add: message_shape)

lemma message_no_A:
  assumes "t = ''T-test'' \<or> t = ''Mann-Whitney U test''"
    and "\<not> float_gt (mean lib a) (mean lib b)"
  shows "CHR ''A'' \<notin> set (message (summarize lib a b t p))"
  using assms
  by (auto simp add: message_shape format_4f_no_capital)

lemma message_no_G:
  assumes "t = ''T-test'' \<or> t = ''Mann-Whitney U test''"
    and "\<not> float_lt p (Finite 0.05)"
  shows "CHR ''G'' \<notin> set (message (summarize lib a b t p))"
  using assms
  by (auto simp add: message_shape format_4f_no_capital)

lemma compare_groups_summary:
  assumes "compare_groups lib data_a data_b method = Inr r"
  shows "r = summarize lib (remove_nans data_a) (remove_nans data_b)
               (if both_normal lib (remove_nans data_a) (remove_nans data_b) then ''T-test''
                else ''Mann-Whitney U test'') (p_value r)"
  using compare_groups_result [OF assms] by (simp split: if_splits)

section \<open>Runs of the instance\<close>

text \<open>The pieces of the model on the listed samples, and the six calls built from them.\<close>

lemmas sample_defs = group_a1_def group_b1_def skewed_a_def skewed_b_def tied_a_def tied_b_def
  constant_5_def

lemma remove_nans_samples:
  "remove_nans group_a1 = group_a1" "remove_nans group_b1 = group_b1"
  "remove_nans skewed_a = skewed_a" "remove_nans skewed_b = skewed_b"
  "remove_nans tied_a = tied_a" "remove_nans tied_b = tied_b"
  "remove_nans constant_5 = constant_5"
  "remove_nans [] = []"
  "remove_nans [Finite 1, NaN, Finite 3] = [Finite 1, Finite 3]"
  "remove_nans [NaN, Finite 2, Finite 4] = [Finite 2, Finite 4]"
  "remove_nans [Finite 1, Finite 3] = [Finite 1, Finite 3]"
  "remove_nans [Finite 2, Finite 4] = [Finite 2, Finite 4]"
  by (simp_all add: remove_nans_def isnan_def sample_defs)

lemma format_4f_samples:
  "format_4f (Finite 0.00000000002) = ''0.0000''"
  "format_4f (Finite 0.53) = ''0.5300''"
  "format_4f (Finite 0.0008) = ''0.0008''"
  "format_4f (Finite (2 / 3)) = ''0.6667''"
  "format_4f NaN = ''nan''"
  by (simp_all add: format_4f_def round_half_even_def Let_def frac_digits4_def digit_char_def
      nat_digits.simps)

lemma shapiro_samples:
  "shapiro sample_lib group_a1 = Inr (Finite 0.5)"
  "shapiro sample_lib group_b1 = Inr (Finite 0.5)"
  "shapiro sample_lib skewed_a = Inr (Finite 0.0001)"
  "shapiro sample_lib skewed_b = Inr (Finite 0.0001)"
  "shapiro sample_lib tied_a = Inr (Finite 0.0001)"
  "shapiro sample_lib tied_b = Inr (Finite 1)"
  "shapiro sample_lib constant_5 = Inr (Finite 1)"
  "shapiro sample_lib [] = Inl (ValueError ''Data must be at least length 3.'')"
  "shapiro sample_lib [Finite 1, Finite 3] = Inl (ValueError ''Data must be at least length 3.'')"
  by (simp_all add: sample_lib_def sample_shapiro_def sample_defs)

lemma test_samples:
  "ttest_ind sample_lib group_a1 group_b1 = Inr (Finite 0.00000000002)"
  "ttest_ind sample_lib constant_5 constant_5 = Inr NaN"
  "mannwhitneyu sample_lib skewed_a skewed_b = Inr (Finite 0.53)"
  "mannwhitneyu sample_lib tied_a tied_b = Inr (Finite 0.0008)"
  "mannwhitneyu sample_lib [] [] = Inl (ValueError ''x and y must be of nonzero size.'')"
  "mannwhitneyu sample_lib [Finite 1, Finite 3] [Finite 2, Finite 4] = Inr (Finite (2 / 3))"
  by (simp_all add: sample_lib_def sample_ttest_ind_def sample_mannwhitneyu_def sample_defs)

lemma mean_samples:
  "mean sample_lib group_a1 = Finite (41 / 4)"
  "mean sample_lib group_b1 = Finite (81 / 4)"
  "mean sample_lib tied_a = Finite 1"
  "mean sample_lib tied_b = Finite 1"
  by (simp_all add: sample_lib_def exact_mean_def sample_defs)

lemma normality_samples:
  "check_normality sample_lib group_a1 group_b1 = Inr (True, True)"
  "check_normality sample_lib skewed_a skewed_b = Inr (False, False)"
  "check_normality sample_lib tied_a tied_b = Inr (False, True)"
  "check_normality sample_lib constant_5 constant_5 = Inr (True, True)"
  "check_normality sample_lib [] [] = Inr (False, False)"
  "check_normality sample_lib [Finite 1, Finite 3] [Finite 2, Finite 4] = Inr (False, False)"
  by (simp_all add: check_normality_def shapiro_samples float_ge_def isnan_def)

lemma run_group_1:
  "compare_groups sample_lib group_a1 group_b1 method =
     Inr \<lparr>p_value = Finite 0.00000000002, significant = True,
          message = ''Significant difference found (p = 0.0000). Used T-test. Group B mean is higher.''\<rparr>"
  by (simp add: compare_groups_unfold remove_nans_samples normality_samples test_samples
      summarize_significant_eq mean_samples format_4f_samples format_4f_samples [simplified] float_gt_def)

lemma run_skewed:
  "compare_groups sample_lib skewed_a skewed_b method =
     Inr \<lparr>p_value = Finite 0.53, significant = False,
          message = ''No significant difference found (p = 0.5300). Used Mann-Whitney U test.''\<rparr>"
  by (simp add: compare_groups_unfold remove_nans_samples normality_samples test_samples
      summarize_not_significant_eq format_4f_samples format_4f_samples [simplified])

lemma run_tied:
  "compare_groups sample_lib tied_a tied_b method =
     Inr \<lparr>p_value = Finite 0.0008, significant = True,
          message = ''Significant difference found (p = 0.0008). Used Mann-Whitney U test. Group B mean is higher.''\<rparr>"
  by (simp add: compare_groups_unfold remove_nans_samples normality_samples test_samples
      summarize_significant_eq mean_samples format_4f_samples format_4f_samples [simplified] float_gt_def)

lemma run_constant:
  "compare_groups sample_lib constant_5 constant_5 method =
     Inr \<lparr>p_value = NaN, significant = False,
          message = ''No significant difference found (p = nan). Used T-test.''\<rparr>"
  by (simp add: compare_groups_unfold remove_nans_samples normality_samples test_samples
      summarize_not_significant_eq format_4f_samples format_4f_samples [simplified])

lemma run_empty:
  "compare_groups sample_lib [] [] method =
     Inl (ValueError ''x and y must be of nonzero size.'')"
  by (simp add: compare_groups_unfold remove_nans_samples normality_samples test_samples)

lemma run_small:
  "compare_groups sample_lib [Finite 1, Finite 3] [Finite 2, Finite 4] method =
     Inr \<lparr>p_value = Finite (2 / 3), significant = False,
          message = ''No significant difference found (p = 0.6667). Used Mann-Whitney U test.''\<rparr>"
  by (simp add: compare_groups_unfold remove_nans_samples normality_samples test_samples
      summarize_not_significant_eq format_4f_samples format_4f_samples [simplified])

lemma both_normal_samples:
  "both_normal sample_lib group_a1 group_b1"
  "\<not> both_normal sample_lib skewed_a skewed_b"
  "\<not> both_normal sample_lib tied_a tied_b"
  "both_normal sample_lib constant_5 constant_5"
  "\<not> both_normal sample_lib [] []"
  "\<not> both_normal sample_lib [Finite 1, Finite 3] [Finite 2, Finite 4]"
  by (simp_all add: both_normal_def shapiro_samples float_ge_def isnan_def)

section \<open>Which test runs\<close>

text \<open>
  C1. Whenever the normality step completes, the T-test runs if and only if both
  samples pass the normality check (both p-values of \<^verbatim>\<open>shapiro\<close> at least 0.05), and
  the Mann-Whitney U test runs in every other case; the p-value and the outcome of
  the call are those of the test that ran, and the message of a returned result names
  that test and not the other one.
\<close>

theorem test_selection:
  "(both_normal lib (remove_nans data_a) (remove_nans data_b) \<longrightarrow>
      compare_groups lib data_a data_b method =
        (case ttest_ind lib (remove_nans data_a) (remove_nans data_b) of
           Inl e \<Rightarrow> Inl e
         | Inr p \<Rightarrow>
             Inr (summarize lib (remove_nans data_a) (remove_nans data_b) ''T-test'' p)))
   \<and> (\<not> both_normal lib (remove_nans data_a) (remove_nans data_b)
        \<and> \<not> isl (check_normality lib (remove_nans data_a) (remove_nans data_b)) \<longrightarrow>
      compare_groups lib data_a data_b method =
        (case mannwhitneyu lib (remove_nans data_a) (remove_nans data_b) of
           Inl e \<Rightarrow> Inl e
         | Inr p \<Rightarrow>
             Inr (summarize lib (remove_nans data_a) (remove_nans data_b)
                    ''Mann-Whitney U test'' p)))
   \<and> (compare_groups lib data_a data_b method = Inr r \<longrightarrow>
        names_test ''T-test'' r = both_normal lib (remove_nans data_a) (remove_nans data_b)
        \<and> names_test ''Mann-Whitney U test'' r
            = (\<not> both_normal lib (remove_nans data_a) (remove_nans data_b)))"
proof (intro conjI impI)
  assume "both_normal lib (remove_nans data_a) (remove_nans data_b)"
  then show "compare_groups lib data_a data_b method =
        (case ttest_ind lib (remove_nans data_a) (remove_nans data_b) of
           Inl e \<Rightarrow> Inl e
         | Inr p \<Rightarrow>
             Inr (summarize lib (remove_nans data_a) (remove_nans data_b) ''T-test'' p))"
    by (rule compare_groups_normal)
next
  assume "\<not> both_normal lib (remove_nans data_a) (remove_nans data_b)
        \<and> \<not> isl (check_normality lib (remove_nans data_a) (remove_nans data_b))"
  then show "compare_groups lib data_a data_b method =
        (case mannwhitneyu lib (remove_nans data_a) (remove_nans data_b) of
           Inl e \<Rightarrow> Inl e
         | Inr p \<Rightarrow>
             Inr (summarize lib (remove_nans data_a) (remove_nans data_b)
                    ''Mann-Whitney U test'' p))"
    by (intro compare_groups_not_normal) simp_all
next
  assume r: "compare_groups lib data_a data_b method = Inr r"
  show "names_test ''T-test'' r = both_normal lib (remove_nans data_a) (remove_nans data_b)"
  proof (cases "both_normal lib (remove_nans data_a) (remove_nans data_b)")
    case True
    with compare_groups_result [OF r]
    have "r = summarize lib (remove_nans data_a) (remove_nans data_b) ''T-test'' (p_value r)"
      by simp
    then have "names_test ''T-test'' r"
      using message_names_test by metis
    with True show ?thesis by simp
  next
    case False
    with compare_groups_result [OF r]
    have "r = summarize lib (remove_nans data_a) (remove_nans data_b)
                ''Mann-Whitney U test'' (p_value r)"
      by simp
    then have "\<not> names_test ''T-test'' r"
      using mann_whitney_not_t_test by metis
    with False show ?thesis by simp
  qed
  show "names_test ''Mann-Whitney U test'' r
          = (\<not> both_normal lib (remove_nans data_a) (remove_nans data_b))"
  proof (cases "both_normal lib (remove_nans data_a) (remove_nans data_b)")
    case True
    with compare_groups_result [OF r]
    have "r = summarize lib (remove_nans data_a) (remove_nans data_b) ''T-test'' (p_value r)"
      by simp
    then have "\<not> names_test ''Mann-Whitney U test'' r"
      using t_test_not_mann_whitney by metis
    with True show ?thesis by simp
  next
    case False
    with compare_groups_result [OF r]
    have "r = summarize lib (remove_nans data_a) (remove_nans data_b)
                ''Mann-Whitney U test'' (p_value r)"
      by simp
    then have "names_test ''Mann-Whitney U test'' r"
      using message_names_test by metis
    with False show ?thesis by simp
  qed
qed

theorem test_selection_witness:
  "both_normal sample_lib (remove_nans group_a1) (remove_nans group_b1)
   \<and> compare_groups sample_lib group_a1 group_b1 ''t-test'' =
       Inr \<lparr>p_value = Finite 0.00000000002, significant = True,
            message = ''Significant difference found (p = 0.0000). Used T-test. Group B mean is higher.''\<rparr>
   \<and> names_test ''T-test''
        \<lparr>p_value = Finite 0.00000000002, significant = True,
         message = ''Significant difference found (p = 0.0000). Used T-test. Group B mean is higher.''\<rparr>
   \<and> \<not> names_test ''Mann-Whitney U test''
        \<lparr>p_value = Finite 0.00000000002, significant = True,
         message = ''Significant difference found (p = 0.0000). Used T-test. Group B mean is higher.''\<rparr>
   \<and> \<not> both_normal sample_lib (remove_nans skewed_a) (remove_nans skewed_b)
   \<and> \<not> isl (check_normality sample_lib (remove_nans skewed_a) (remove_nans skewed_b))
   \<and> compare_groups sample_lib skewed_a skewed_b ''t-test'' =
       Inr \<lparr>p_value = Finite 0.53, significant = False,
            message = ''No significant difference found (p = 0.5300). Used Mann-Whitney U test.''\<rparr>
   \<and> names_test ''Mann-Whitney U test''
        \<lparr>p_value = Finite 0.53, significant = False,
         message = ''No significant difference found (p = 0.5300). Used Mann-Whitney U test.''\<rparr>
   \<and> \<not> names_test ''T-test''
        \<lparr>p_value = Finite 0.53, significant = False,
         message = ''No significant difference found (p = 0.5300). Used Mann-Whitney U test.''\<rparr>"
proof -
  have n1: "both_normal sample_lib (remove_nans group_a1) (remove_nans group_b1)"
    by (simp add: both_normal_samples remove_nans_samples)
  have n2: "\<not> both_normal sample_lib (remove_nans skewed_a) (remove_nans skewed_b)"
    by (simp add: both_normal_samples remove_nans_samples)
  have c2: "\<not> isl (check_normality sample_lib (remove_nans skewed_a) (remove_nans skewed_b))"
    by (simp add: normality_samples remove_nans_samples)
  note t1 = test_selection [of sample_lib group_a1 group_b1 "''t-test''"
      "\<lparr>p_value = Finite 0.00000000002, significant = True,
        message = ''Significant difference found (p = 0.0000). Used T-test. Group B mean is higher.''\<rparr>"]
  note t2 = test_selection [of sample_lib skewed_a skewed_b "''t-test''"
      "\<lparr>p_value = Finite 0.53, significant = False,
        message = ''No significant difference found (p = 0.5300). Used Mann-Whitney U test.''\<rparr>"]
  from t1 n1 run_group_1 [of "''t-test''"] t2 n2 c2 run_skewed [of "''t-test''"] show ?thesis
    by simp
qed

section \<open>The fallback of the normality step\<close>

lemma small_sample_diagnostic:
  assumes "shapiro_rejects_small lib"
    and "length a < 3 \<or> (length b < 3 \<and> \<not> raises_uncaught (shapiro lib a))"
  shows "diagnostic_raises_ValueError lib a b"
proof (cases "length a < 3")
  case True
  with assms(1) obtain msg where "shapiro lib a = Inl (ValueError msg)"
    unfolding shapiro_rejects_small_def by blast
  then show ?thesis
    by (simp add: diagnostic_raises_ValueError_def)
next
  case False
  with assms(2) have b: "length b < 3" and a: "\<not> raises_uncaught (shapiro lib a)"
    by simp_all
  from assms(1) b obtain msg where "shapiro lib b = Inl (ValueError msg)"
    unfolding shapiro_rejects_small_def by blast
  with a show ?thesis
    by (simp add: diagnostic_raises_ValueError_def raises_uncaught_def split: sum.splits)
qed

text \<open>
  C2. When the normality step ends in a \<^verbatim>\<open>ValueError\<close>, be it raised by \<^verbatim>\<open>shapiro\<close> on the
  first sample or, after the first call has returned, on the second one, both samples
  are classified not normal, the step hands no exception to the caller, and the call is
  the Mann-Whitney branch. With a library whose \<^verbatim>\<open>shapiro\<close> rejects fewer than three
  observations by a \<^verbatim>\<open>ValueError\<close>, this is the case whenever the first sanitized
  sample has fewer than three observations, and whenever the second one has and the
  call on the first one has not ended in an exception other than \<^verbatim>\<open>ValueError\<close>.
\<close>

theorem normality_fallback:
  assumes "diagnostic_raises_ValueError lib (remove_nans data_a) (remove_nans data_b)
           \<or> (shapiro_rejects_small lib
               \<and> (length (remove_nans data_a) < 3
                   \<or> (length (remove_nans data_b) < 3
                       \<and> \<not> raises_uncaught (shapiro lib (remove_nans data_a)))))"
  shows "check_normality lib (remove_nans data_a) (remove_nans data_b) = Inr (False, False)
         \<and> \<not> both_normal lib (remove_nans data_a) (remove_nans data_b)
         \<and> compare_groups lib data_a data_b method =
             (case mannwhitneyu lib (remove_nans data_a) (remove_nans data_b) of
                Inl e \<Rightarrow> Inl e
              | Inr p \<Rightarrow>
                  Inr (summarize lib (remove_nans data_a) (remove_nans data_b)
                         ''Mann-Whitney U test'' p))"
proof -
  from assms have "diagnostic_raises_ValueError lib (remove_nans data_a) (remove_nans data_b)"
    using small_sample_diagnostic by blast
  then have c: "check_normality lib (remove_nans data_a) (remove_nans data_b)
                  = Inr (False, False)"
    by (rule check_normality_caught)
  then have "\<not> both_normal lib (remove_nans data_a) (remove_nans data_b)"
    using check_normality_flags by fastforce
  with c show ?thesis
    by (simp add: compare_groups_unfold)
qed

theorem normality_fallback_witness:
  "length (remove_nans [Finite 1, NaN, Finite 3]) < 3
   \<and> check_normality sample_lib (remove_nans [Finite 1, NaN, Finite 3])
        (remove_nans [NaN, Finite 2, Finite 4]) = Inr (False, False)
   \<and> compare_groups sample_lib [Finite 1, NaN, Finite 3] [NaN, Finite 2, Finite 4] ''t-test''
       = Inr \<lparr>p_value = Finite (2 / 3), significant = False,
              message = ''No significant difference found (p = 0.6667). Used Mann-Whitney U test.''\<rparr>"
proof -
  have small: "shapiro_rejects_small sample_lib"
    by (simp add: shapiro_rejects_small_def sample_lib_def sample_shapiro_def)
  have len: "length (remove_nans [Finite 1, NaN, Finite 3]) < 3"
    by (simp add: remove_nans_samples)
  have "compare_groups sample_lib [Finite 1, NaN, Finite 3] [NaN, Finite 2, Finite 4] ''t-test''
      = compare_groups sample_lib [Finite 1, Finite 3] [Finite 2, Finite 4] ''t-test''"
    by (rule compare_groups_sanitized) (simp_all add: remove_nans_samples)
  with normality_fallback [of sample_lib "[Finite 1, NaN, Finite 3]" "[NaN, Finite 2, Finite 4]"
      "''t-test''"] small len run_small [of "''t-test''"]
  show ?thesis by simp
qed

section \<open>The significance flag\<close>

text \<open>
  C3. For every returned result, \<open>significant\<close> is the comparison of the returned
  p-value with the constant 0.05, which is no parameter of the function; the returned
  p-value is the one of the test that ran.
\<close>

theorem significant_is_threshold:
  "compare_groups lib data_a data_b method = Inr r \<Longrightarrow>
     significant r = float_lt (p_value r) (Finite 0.05)
     \<and> (if both_normal lib (remove_nans data_a) (remove_nans data_b)
         then ttest_ind lib (remove_nans data_a) (remove_nans data_b)
         else mannwhitneyu lib (remove_nans data_a) (remove_nans data_b)) = Inr (p_value r)"
proof -
  assume r: "compare_groups lib data_a data_b method = Inr r"
  from compare_groups_result [OF r]
  obtain t where t: "r = summarize lib (remove_nans data_a) (remove_nans data_b) t (p_value r)"
    by (auto split: if_splits)
  then have "significant r
      = significant (summarize lib (remove_nans data_a) (remove_nans data_b) t (p_value r))"
    by simp
  then have "significant r = float_lt (p_value r) (Finite 0.05)"
    by (simp only: summarize_significant)
  moreover from compare_groups_result [OF r]
  have "(if both_normal lib (remove_nans data_a) (remove_nans data_b)
         then ttest_ind lib (remove_nans data_a) (remove_nans data_b)
         else mannwhitneyu lib (remove_nans data_a) (remove_nans data_b)) = Inr (p_value r)"
    by (simp split: if_splits)
  ultimately show ?thesis by simp
qed

theorem significant_is_threshold_witness:
  "compare_groups sample_lib group_a1 group_b1 ''t-test'' =
     Inr \<lparr>p_value = Finite 0.00000000002, significant = True,
          message = ''Significant difference found (p = 0.0000). Used T-test. Group B mean is higher.''\<rparr>
   \<and> float_lt (Finite 0.00000000002) (Finite 0.05)
   \<and> ttest_ind sample_lib group_a1 group_b1 = Inr (Finite 0.00000000002)
   \<and> compare_groups sample_lib skewed_a skewed_b ''t-test'' =
     Inr \<lparr>p_value = Finite 0.53, significant = False,
          message = ''No significant difference found (p = 0.5300). Used Mann-Whitney U test.''\<rparr>
   \<and> \<not> float_lt (Finite 0.53) (Finite 0.05)
   \<and> mannwhitneyu sample_lib skewed_a skewed_b = Inr (Finite 0.53)"
  using significant_is_threshold [OF run_group_1 [of "''t-test''"]]
    significant_is_threshold [OF run_skewed [of "''t-test''"]]
    run_group_1 [of "''t-test''"] run_skewed [of "''t-test''"]
  by (simp add: both_normal_samples remove_nans_samples)

section \<open>The direction of a significant difference\<close>

lemma direction_iff_significant:
  assumes "compare_groups lib data_a data_b method = Inr r"
  shows "(claims_A_higher r \<or> claims_B_higher r) = significant r"
proof -
  define t where "t = (if both_normal lib (remove_nans data_a) (remove_nans data_b)
                       then ''T-test'' else ''Mann-Whitney U test'')"
  have t: "t = ''T-test'' \<or> t = ''Mann-Whitney U test''"
    by (simp add: t_def)
  have r: "r = summarize lib (remove_nans data_a) (remove_nans data_b) t (p_value r)"
    unfolding t_def using assms by (rule compare_groups_summary)
  have s: "significant r = float_lt (p_value r) (Finite 0.05)"
    by (subst r) (simp only: summarize_significant)
  show ?thesis
  proof (cases "float_lt (p_value r) (Finite 0.05)")
    case True
    define d where "d = (if float_gt (mean lib (remove_nans data_a)) (mean lib (remove_nans data_b))
                         then ''Group A mean is higher.'' else ''Group B mean is higher.'')"
    have "message (summarize lib (remove_nans data_a) (remove_nans data_b) t (p_value r))
        = (''Significant difference found (p = '' @ format_4f (p_value r) @ ''). Used '' @ t @ ''. '')
          @ d"
      using True by (simp add: message_significant d_def)
    then have m: "message r
        = (''Significant difference found (p = '' @ format_4f (p_value r) @ ''). Used '' @ t @ ''. '')
          @ d"
      using r by simp
    have "sublist d (message r)"
      by (subst m) (rule sublist_append_leftI)
    then have "claims_A_higher r \<or> claims_B_higher r"
      unfolding claims_A_higher_def claims_B_higher_def d_def
      by (cases "float_gt (mean lib (remove_nans data_a)) (mean lib (remove_nans data_b))")
        simp_all
    with s True show ?thesis by simp
  next
    case False
    have "CHR ''G'' \<notin> set (message (summarize lib (remove_nans data_a) (remove_nans data_b) t
                                       (p_value r)))"
      using t False by (rule message_no_G)
    then have g: "CHR ''G'' \<notin> set (message r)"
      using r by simp
    have "\<not> claims_A_higher r" "\<not> claims_B_higher r"
      unfolding claims_A_higher_def claims_B_higher_def
      by (rule no_char_no_sublist [where c = "CHR ''G''"], simp, rule g)+
    with s False show ?thesis by simp
  qed
qed

text \<open>
  C4. The message of a returned result makes a directional claim exactly when
  \<open>significant\<close> is true (the fact above), and the claim is meant to name the group whose
  mean over the sanitized sample is strictly higher. The comparison \<^verbatim>\<open>mean_a > mean_b\<close> has
  one \<^verbatim>\<open>else\<close> for all that is left, so with equal means the message names group B, whose
  mean is not higher. With nine zeros and one ten in group A and ten ones in group B both
  means are 1. The first sample is far from normal, so the Mann-Whitney U test runs; its
  statistic is 10 of 100, which with the corrections for ties and continuity is 3.4
  standard deviations from the middle, a p-value of about 0.0008. The difference is
  significant and the message ends in ``Group B mean is higher.''
\<close>

theorem tie_reports_group_b:
  "compare_groups sample_lib tied_a tied_b ''t-test'' =
     Inr \<lparr>p_value = Finite 0.0008, significant = True,
          message = ''Significant difference found (p = 0.0008). Used Mann-Whitney U test. Group B mean is higher.''\<rparr>
   \<and> claims_B_higher
        \<lparr>p_value = Finite 0.0008, significant = True,
         message = ''Significant difference found (p = 0.0008). Used Mann-Whitney U test. Group B mean is higher.''\<rparr>
   \<and> mean sample_lib (remove_nans tied_a) = mean sample_lib (remove_nans tied_b)
   \<and> \<not> float_gt (mean sample_lib (remove_nans tied_b)) (mean sample_lib (remove_nans tied_a))"
proof -
  have "sublist ''Group B mean is higher.''
          (''Significant difference found (p = 0.0008). Used Mann-Whitney U test. ''
           @ ''Group B mean is higher.'')"
    by (rule sublist_append_leftI)
  then have "claims_B_higher
        \<lparr>p_value = Finite 0.0008, significant = True,
         message = ''Significant difference found (p = 0.0008). Used Mann-Whitney U test. Group B mean is higher.''\<rparr>"
    by (simp add: claims_B_higher_def)
  then show ?thesis
    by (simp add: run_tied remove_nans_samples mean_samples float_gt_def)
qed

text \<open>
  C10. When a result is returned with \<open>significant\<close> true and the mean of the sanitized
  sample A is not strictly greater than the mean of the sanitized sample B, equal means
  included, the message ends in ``Group B mean is higher.'' and does not name group A.
\<close>

theorem tie_break_group_b:
  assumes "compare_groups lib data_a data_b method = Inr r"
    and "significant r"
    and "\<not> float_gt (mean lib (remove_nans data_a)) (mean lib (remove_nans data_b))"
  shows "message r =
           ''Significant difference found (p = '' @ format_4f (p_value r) @ ''). Used ''
           @ (if both_normal lib (remove_nans data_a) (remove_nans data_b) then ''T-test''
              else ''Mann-Whitney U test'') @ ''. Group B mean is higher.''
         \<and> suffix ''Group B mean is higher.'' (message r)
         \<and> claims_B_higher r \<and> \<not> claims_A_higher r"
proof -
  define t where "t = (if both_normal lib (remove_nans data_a) (remove_nans data_b)
                       then ''T-test'' else ''Mann-Whitney U test'')"
  have t: "t = ''T-test'' \<or> t = ''Mann-Whitney U test''"
    by (simp add: t_def)
  have r: "r = summarize lib (remove_nans data_a) (remove_nans data_b) t (p_value r)"
    unfolding t_def using assms(1) by (rule compare_groups_summary)
  have "significant r = float_lt (p_value r) (Finite 0.05)"
    by (subst r) (simp only: summarize_significant)
  with assms(2) have sig: "float_lt (p_value r) (Finite 0.05)"
    by simp
  have "message (summarize lib (remove_nans data_a) (remove_nans data_b) t (p_value r))
      = (''Significant difference found (p = '' @ format_4f (p_value r) @ ''). Used '' @ t @ ''. '')
        @ ''Group B mean is higher.''"
    using sig assms(3) by (simp add: message_significant)
  then have m: "message r
      = (''Significant difference found (p = '' @ format_4f (p_value r) @ ''). Used '' @ t @ ''. '')
        @ ''Group B mean is higher.''"
    using r by simp
  have 1: "suffix ''Group B mean is higher.'' (message r)"
    by (subst m) (rule suffix_appendI, rule suffix_order.refl)
  then have 2: "claims_B_higher r"
    unfolding claims_B_higher_def by (rule suffix_imp_sublist)
  have "CHR ''A'' \<notin> set (message (summarize lib (remove_nans data_a) (remove_nans data_b) t
                                     (p_value r)))"
    using t assms(3) by (rule message_no_A)
  then have "CHR ''A'' \<notin> set (message r)"
    using r by simp
  then have 3: "\<not> claims_A_higher r"
    unfolding claims_A_higher_def
    by (intro no_char_no_sublist [where c = "CHR ''A''"]) simp_all
  from m 1 2 3 show ?thesis
    by (simp add: t_def)
qed

theorem tie_break_group_b_witness:
  "compare_groups sample_lib tied_a tied_b ''t-test'' =
     Inr \<lparr>p_value = Finite 0.0008, significant = True,
          message = ''Significant difference found (p = 0.0008). Used Mann-Whitney U test. Group B mean is higher.''\<rparr>
   \<and> mean sample_lib (remove_nans tied_a) = Finite 1
   \<and> mean sample_lib (remove_nans tied_b) = Finite 1
   \<and> \<not> float_gt (Finite 1) (Finite 1)
   \<and> suffix ''Group B mean is higher.''
        ''Significant difference found (p = 0.0008). Used Mann-Whitney U test. Group B mean is higher.''
   \<and> \<not> claims_A_higher
        \<lparr>p_value = Finite 0.0008, significant = True,
         message = ''Significant difference found (p = 0.0008). Used Mann-Whitney U test. Group B mean is higher.''\<rparr>"
proof -
  have m: "mean sample_lib (remove_nans tied_a) = Finite 1"
    "mean sample_lib (remove_nans tied_b) = Finite 1"
    by (simp_all add: remove_nans_samples mean_samples)
  have g: "\<not> float_gt (Finite 1) (Finite 1)"
    by (simp add: float_gt_def)
  from tie_break_group_b [OF run_tied [of "''t-test''"]] m g run_tied [of "''t-test''"]
  show ?thesis by simp
qed

section \<open>Sanitization\<close>

text \<open>
  C5. Putting not-a-number entries into either input, at any places, changes nothing:
  the call returns what it returns on the inputs without them, which is also what it
  returns on the two sanitized samples. The samples are filtered one by one; nothing
  relates their lengths or the places of the dropped entries.
\<close>

theorem nan_entries_are_ignored:
  assumes "nans_inserted data_a data_a'" and "nans_inserted data_b data_b'"
  shows "compare_groups lib data_a' data_b' method = compare_groups lib data_a data_b method
         \<and> compare_groups lib data_a' data_b' method
             = compare_groups lib (remove_nans data_a') (remove_nans data_b') method"
proof -
  from assms have "remove_nans data_a' = remove_nans data_a"
    and "remove_nans data_b' = remove_nans data_b"
    by (simp_all add: nans_inserted_remove)
  then have "compare_groups lib data_a' data_b' method = compare_groups lib data_a data_b method"
    by (rule compare_groups_sanitized)
  moreover have "compare_groups lib data_a' data_b' method
      = compare_groups lib (remove_nans data_a') (remove_nans data_b') method"
    by (rule compare_groups_sanitized) (simp_all add: remove_nans_idem)
  ultimately show ?thesis by simp
qed

theorem nan_entries_are_ignored_witness:
  "nans_inserted [Finite 1, Finite 3] [Finite 1, NaN, Finite 3]
   \<and> nans_inserted [Finite 2, Finite 4] [NaN, Finite 2, Finite 4]
   \<and> compare_groups sample_lib [Finite 1, NaN, Finite 3] [NaN, Finite 2, Finite 4] ''t-test''
       = compare_groups sample_lib [Finite 1, Finite 3] [Finite 2, Finite 4] ''t-test''
   \<and> compare_groups sample_lib [Finite 1, NaN, Finite 3] [NaN, Finite 2, Finite 4] ''t-test''
       = Inr \<lparr>p_value = Finite (2 / 3), significant = False,
              message = ''No significant difference found (p = 0.6667). Used Mann-Whitney U test.''\<rparr>"
proof -
  have "nans_inserted [Finite 1, Finite 3] ([Finite 1] @ NaN # [Finite 3])"
    by (rule insert_nan) (simp add: same)
  then have a: "nans_inserted [Finite 1, Finite 3] [Finite 1, NaN, Finite 3]"
    by simp
  have "nans_inserted [Finite 2, Finite 4] ([] @ NaN # [Finite 2, Finite 4])"
    by (rule insert_nan) (simp add: same)
  then have b: "nans_inserted [Finite 2, Finite 4] [NaN, Finite 2, Finite 4]"
    by simp
  from nan_entries_are_ignored [OF a b, of sample_lib "''t-test''"] a b
    run_small [of "''t-test''"]
  show ?thesis by simp
qed

section \<open>Failure of the selected test\<close>

text \<open>
  C6. When the normality step has completed and the selected test raises an exception,
  the call ends in that same exception, as the library raised it: nothing wraps it and
  nothing names a step, and no result is returned. Conversely, every exception the call
  ends in is the one that escaped the normality step or the one the selected test
  raised.
\<close>

theorem test_exception_propagates:
  "(\<not> isl (check_normality lib (remove_nans data_a) (remove_nans data_b))
      \<and> (if both_normal lib (remove_nans data_a) (remove_nans data_b)
          then ttest_ind lib (remove_nans data_a) (remove_nans data_b)
          else mannwhitneyu lib (remove_nans data_a) (remove_nans data_b)) = Inl e
      \<longrightarrow> compare_groups lib data_a data_b method = Inl e)
   \<and> (compare_groups lib data_a data_b method = Inl e
      \<longrightarrow> check_normality lib (remove_nans data_a) (remove_nans data_b) = Inl e
          \<or> (\<not> isl (check_normality lib (remove_nans data_a) (remove_nans data_b))
              \<and> (if both_normal lib (remove_nans data_a) (remove_nans data_b)
                  then ttest_ind lib (remove_nans data_a) (remove_nans data_b)
                  else mannwhitneyu lib (remove_nans data_a) (remove_nans data_b)) = Inl e))"
proof (cases "check_normality lib (remove_nans data_a) (remove_nans data_b)")
  case (Inl e')
  then have "compare_groups lib data_a data_b method = Inl e'"
    by (simp add: compare_groups_unfold)
  with Inl show ?thesis by simp
next
  case (Inr flags)
  then have c: "\<not> isl (check_normality lib (remove_nans data_a) (remove_nans data_b))"
    by simp
  show ?thesis
  proof (cases "both_normal lib (remove_nans data_a) (remove_nans data_b)")
    case True
    then show ?thesis
      using c by (simp add: compare_groups_normal split: sum.splits)
  next
    case False
    then show ?thesis
      using c by (simp add: compare_groups_not_normal split: sum.splits)
  qed
qed

theorem test_exception_propagates_witness:
  "\<not> isl (check_normality sample_lib (remove_nans []) (remove_nans []))
   \<and> \<not> both_normal sample_lib (remove_nans []) (remove_nans [])
   \<and> mannwhitneyu sample_lib (remove_nans []) (remove_nans [])
       = Inl (ValueError ''x and y must be of nonzero size.'')
   \<and> compare_groups sample_lib [] [] ''t-test''
       = Inl (ValueError ''x and y must be of nonzero size.'')"
  using test_exception_propagates [of sample_lib "[]" "[]"
      "ValueError ''x and y must be of nonzero size.''" "''t-test''"]
  by (simp add: remove_nans_samples normality_samples both_normal_samples test_samples)

text \<open>
  Two empty samples: \<^verbatim>\<open>shapiro\<close> raises a \<^verbatim>\<open>ValueError\<close>, which is caught, and
  \<^verbatim>\<open>mannwhitneyu\<close> raises another, which is the outcome of the call. It is no
  \<open>ComputationError\<close>.
\<close>

theorem empty_samples_raise_ValueError:
  "compare_groups sample_lib [] [] ''t-test''
     = Inl (ValueError ''x and y must be of nonzero size.'')
   \<and> \<not> is_ComputationError (ValueError ''x and y must be of nonzero size.'')"
  by (simp add: run_empty)

section \<open>The returned record\<close>

text \<open>
  C7. Every returned result has the three fields of the record. \<open>p_value\<close> is the p-value
  that the selected test returned, whatever it is. \<open>significant\<close> is its comparison with
  0.05. \<open>message\<close> is one line, not empty, without a line feed or a carriage return, made
  of two sentences, or three when the difference is significant: the outcome with the
  p-value in \<^verbatim>\<open>.4f\<close> format, then the test that ran, then the direction. A finite p-value is
  written with a point and four decimal digits.
\<close>

theorem result_contract:
  assumes "compare_groups lib data_a data_b method = Inr r"
  shows "(if both_normal lib (remove_nans data_a) (remove_nans data_b)
          then ttest_ind lib (remove_nans data_a) (remove_nans data_b)
          else mannwhitneyu lib (remove_nans data_a) (remove_nans data_b)) = Inr (p_value r)
     \<and> significant r = float_lt (p_value r) (Finite 0.05)
     \<and> message r =
         outcome_sentence r @ '' Used ''
         @ (if both_normal lib (remove_nans data_a) (remove_nans data_b) then ''T-test''
            else ''Mann-Whitney U test'') @ ''.''
         @ (if significant r then
              (if float_gt (mean lib (remove_nans data_a)) (mean lib (remove_nans data_b))
               then '' Group A mean is higher.'' else '' Group B mean is higher.'')
            else '''')
     \<and> message r \<noteq> []
     \<and> CHR 0x0A \<notin> set (message r)
     \<and> CHR 0x0D \<notin> set (message r)
     \<and> sentence_count (message r) = (if significant r then 3 else 2)
     \<and> (is_finite (p_value r) \<longrightarrow> four_decimals (format_4f (p_value r)))"
proof -
  let ?a = "remove_nans data_a" and ?b = "remove_nans data_b"
  let ?t = "if both_normal lib ?a ?b then ''T-test'' else ''Mann-Whitney U test''"
  let ?s = "summarize lib ?a ?b ?t (p_value r)"
  have t: "?t = ''T-test'' \<or> ?t = ''Mann-Whitney U test''"
    by simp
  have r: "r = ?s"
    using assms by (rule compare_groups_summary)
  have m: "message r = message ?s"
    by (subst r) (rule refl)
  have 1: "(if both_normal lib ?a ?b then ttest_ind lib ?a ?b else mannwhitneyu lib ?a ?b)
             = Inr (p_value r)"
    using compare_groups_result [OF assms] by (simp split: if_splits)
  have 2: "significant r = float_lt (p_value r) (Finite 0.05)"
    by (subst r) (simp only: summarize_significant)
  have 3: "message r =
         outcome_sentence r @ '' Used '' @ ?t @ ''.''
         @ (if significant r then
              (if float_gt (mean lib ?a) (mean lib ?b)
               then '' Group A mean is higher.'' else '' Group B mean is higher.'')
            else '''')"
    unfolding outcome_sentence_def 2 m message_shape by simp
  have 4: "message r \<noteq> []"
    unfolding m by (rule message_nonempty)
  have 5: "CHR 0x0A \<notin> set (message r)"
    unfolding m using t by (rule message_no_line_break)
  have 6: "CHR 0x0D \<notin> set (message r)"
    unfolding m using t by (rule message_no_line_break)
  have 7: "sentence_count (message r) = (if significant r then 3 else 2)"
    unfolding m 2 using t by (rule message_sentences)
  have 8: "is_finite (p_value r) \<longrightarrow> four_decimals (format_4f (p_value r))"
    by (cases "p_value r") (simp_all add: format_4f_four_decimals)
  from 1 2 3 4 5 6 7 8 show ?thesis
    by blast
qed

theorem result_contract_witness:
  "compare_groups sample_lib group_a1 group_b1 ''t-test'' =
     Inr \<lparr>p_value = Finite 0.00000000002, significant = True,
          message = ''Significant difference found (p = 0.0000). Used T-test. Group B mean is higher.''\<rparr>
   \<and> ttest_ind sample_lib group_a1 group_b1 = Inr (Finite 0.00000000002)
   \<and> is_finite (Finite 0.00000000002)
   \<and> four_decimals (format_4f (Finite 0.00000000002))
   \<and> sentence_count
        ''Significant difference found (p = 0.0000). Used T-test. Group B mean is higher.'' = 3
   \<and> CHR 0x0A \<notin> set ''Significant difference found (p = 0.0000). Used T-test. Group B mean is higher.''"
  using result_contract [OF run_group_1 [of "''t-test''"]] run_group_1 [of "''t-test''"]
  by (simp add: both_normal_samples remove_nans_samples)

text \<open>
  Two samples of five fives: \<^verbatim>\<open>shapiro\<close> yields 1 for a sample without spread, so the
  T-test runs, and its p-value on two such samples is not-a-number. The call returns it:
  the p-value of the result is no number between 0 and 1, and the message has two
  sentences.
\<close>

theorem constant_samples_p_value_nan:
  "compare_groups sample_lib constant_5 constant_5 ''t-test'' =
     Inr \<lparr>p_value = NaN, significant = False,
          message = ''No significant difference found (p = nan). Used T-test.''\<rparr>
   \<and> \<not> in_unit_interval NaN
   \<and> sentence_count ''No significant difference found (p = nan). Used T-test.'' = 2"
  by (simp add: run_constant in_unit_interval_def)

section \<open>The unused parameter\<close>

text \<open>
  C9. The parameter \<open>method\<close> has no effect: for all samples and any two values of
  \<open>method\<close> the two calls return the same outcome, be it a result or an exception.
  The test that runs is fixed by the two verdicts of the normality step alone: whatever
  \<open>method\<close> is, the call is the T-test branch when both verdicts are true and the
  Mann-Whitney branch when one of them is false, and it ends in the exception of the
  normality step when that step lets one pass.
\<close>

theorem method_has_no_effect:
  "compare_groups lib data_a data_b method1 = compare_groups lib data_a data_b method2
   \<and> (check_normality lib (remove_nans data_a) (remove_nans data_b) = Inr (is_normal_a, is_normal_b)
        \<longrightarrow> compare_groups lib data_a data_b method1 =
          (if is_normal_a \<and> is_normal_b then
             (case ttest_ind lib (remove_nans data_a) (remove_nans data_b) of
                Inl e \<Rightarrow> Inl e
              | Inr p \<Rightarrow>
                  Inr (summarize lib (remove_nans data_a) (remove_nans data_b) ''T-test'' p))
           else
             (case mannwhitneyu lib (remove_nans data_a) (remove_nans data_b) of
                Inl e \<Rightarrow> Inl e
              | Inr p \<Rightarrow>
                  Inr (summarize lib (remove_nans data_a) (remove_nans data_b)
                         ''Mann-Whitney U test'' p))))
   \<and> (check_normality lib (remove_nans data_a) (remove_nans data_b) = Inl e
        \<longrightarrow> compare_groups lib data_a data_b method1 = Inl e)"
proof (intro conjI impI)
  show "compare_groups lib data_a data_b method1 = compare_groups lib data_a data_b method2"
    by (simp add: compare_groups_def)
next
  assume "check_normality lib (remove_nans data_a) (remove_nans data_b)
            = Inr (is_normal_a, is_normal_b)"
  then show "compare_groups lib data_a data_b method1 =
          (if is_normal_a \<and> is_normal_b then
             (case ttest_ind lib (remove_nans data_a) (remove_nans data_b) of
                Inl e \<Rightarrow> Inl e
              | Inr p \<Rightarrow>
                  Inr (summarize lib (remove_nans data_a) (remove_nans data_b) ''T-test'' p))
           else
             (case mannwhitneyu lib (remove_nans data_a) (remove_nans data_b) of
                Inl e \<Rightarrow> Inl e
              | Inr p \<Rightarrow>
                  Inr (summarize lib (remove_nans data_a) (remove_nans data_b)
                         ''Mann-Whitney U test'' p)))"
    by (simp add: compare_groups_unfold)
next
  assume "check_normality lib (remove_nans data_a) (remove_nans data_b) = Inl e"
  then show "compare_groups lib data_a data_b method1 = Inl e"
    by (simp add: compare_groups_unfold)
qed

theorem method_has_no_effect_witness:
  "check_normality sample_lib (remove_nans group_a1) (remove_nans group_b1) = Inr (True, True)
   \<and> compare_groups sample_lib group_a1 group_b1 ''mann-whitney''
       = compare_groups sample_lib group_a1 group_b1 ''t-test''
   \<and> compare_groups sample_lib group_a1 group_b1 ''mann-whitney'' =
       Inr \<lparr>p_value = Finite 0.00000000002, significant = True,
            message = ''Significant difference found (p = 0.0000). Used T-test. Group B mean is higher.''\<rparr>
   \<and> check_normality sample_lib (remove_nans tied_a) (remove_nans tied_b) = Inr (False, True)
   \<and> compare_groups sample_lib tied_a tied_b ''t-test'' =
       Inr \<lparr>p_value = Finite 0.0008, significant = True,
            message = ''Significant difference found (p = 0.0008). Used Mann-Whitney U test. Group B mean is higher.''\<rparr>
   \<and> check_normality interrupted_lib (remove_nans group_a1) (remove_nans group_b1)
       = Inl (OtherException ''MemoryError'')
   \<and> compare_groups interrupted_lib group_a1 group_b1 ''t-test''
       = Inl (OtherException ''MemoryError'')"
proof -
  have c1: "check_normality sample_lib (remove_nans group_a1) (remove_nans group_b1)
              = Inr (True, True)"
    by (simp add: normality_samples remove_nans_samples)
  have c2: "check_normality sample_lib (remove_nans tied_a) (remove_nans tied_b)
              = Inr (False, True)"
    by (simp add: normality_samples remove_nans_samples)
  note m1 = method_has_no_effect [of sample_lib group_a1 group_b1 "''mann-whitney''" "''t-test''"
      True True]
  note m2 = method_has_no_effect [of sample_lib tied_a tied_b "''t-test''" "''t-test''"
      False True]
  have c3: "check_normality interrupted_lib (remove_nans group_a1) (remove_nans group_b1)
              = Inl (OtherException ''MemoryError'')"
    by (simp add: check_normality_def interrupted_lib_def)
  note m3 = method_has_no_effect [of interrupted_lib group_a1 group_b1 "''t-test''" "''t-test''"
      True True "OtherException ''MemoryError''"]
  from m1 c1 m2 c2 m3 c3 run_group_1 [of "''t-test''"] run_tied [of "''t-test''"]
  show ?thesis by simp
qed

end
